theory Spec2Isabelle
  imports Complex_Main "HOL-Library.Word"
begin

section \<open>The physics core of jumper.c\<close>

text \<open>
  A shallow embedding of the collision resolvers, the character controller and the
  fixed-step driver of \<^verbatim>\<open>src/jumper.c\<close>.

  Numbers: a C \<^verbatim>\<open>double\<close> is modelled as a \<^typ>\<open>real\<close>, so every statement below is
  about finite doubles with exact arithmetic; rounding, infinities and NaN are outside the
  model. A C \<^verbatim>\<open>int\<close> that holds a cell coordinate is an \<^typ>\<open>int\<close> (no overflow is modelled),
  a \<^verbatim>\<open>uint8_t\<close> is an \<^typ>\<open>8 word\<close>, and an \<^verbatim>\<open>int\<close> that the code only ever uses as a
  flag (\<^verbatim>\<open>grounded\<close>, \<^verbatim>\<open>jump\<close>, \<^verbatim>\<open>sprint\<close>, \<^verbatim>\<open>level_complete\<close>) is a \<^typ>\<open>bool\<close>.
\<close>

subsection \<open>Data\<close>

record Player =
  px :: real
  py :: real
  pz :: real
  vx :: real
  vy :: real
  vz :: real
  yaw :: real
  pitch :: real
  grounded :: bool
  time_since_grounded :: real

record Input =
  move_fwd :: real
  move_strafe :: real
  jump :: bool
  sprint :: bool
  mouse_dx :: int
  mouse_dy :: int

text \<open>
  The map globals \<^verbatim>\<open>map_w\<close>, \<^verbatim>\<open>map_h\<close>, \<^verbatim>\<open>map_cells\<close>, \<^verbatim>\<open>map_rots\<close>. The two byte arrays
  are modelled as the store they point to: the byte at offset \<open>i\<close>. The physics code reads
  them only at \<open>z * map_w + x\<close> for a cell that passed \<^verbatim>\<open>in_map\<close>, and such an offset lies
  inside the \<open>map_w * map_h\<close> bytes the loader allocates (lemma \<open>in_map_offset\<close>).
\<close>

record Grid =
  map_w :: int
  map_h :: int
  map_cells :: "int \<Rightarrow> 8 word"
  map_rots :: "int \<Rightarrow> 8 word"

definition CELL_SIZE :: real where "CELL_SIZE = 1.0"
definition PLAYER_RADIUS :: real where "PLAYER_RADIUS = 0.28"
definition PLAYER_HEIGHT :: real where "PLAYER_HEIGHT = 1.8"

definition TILE_EMPTY :: "8 word" where "TILE_EMPTY = 0"
definition TILE_CUBE :: "8 word" where "TILE_CUBE = 1"
definition TILE_WEDGE :: "8 word" where "TILE_WEDGE = 2"
definition TILE_END :: "8 word" where "TILE_END = 3"

definition GRAVITY :: real where "GRAVITY = 20.0"
definition WALK_ACCEL :: real where "WALK_ACCEL = 100.0"
definition AIR_ACCEL :: real where "AIR_ACCEL = 60.0"
definition MAX_WALK_SPEED :: real where "MAX_WALK_SPEED = 7.0"
definition JUMP_VELOCITY :: real where "JUMP_VELOCITY = 8.0"
definition FRICTION :: real where "FRICTION = 6.0"
definition BUNNY_HOP_TIME :: real where "BUNNY_HOP_TIME = 0.1"

subsection \<open>Helpers\<close>

definition clampd :: "real \<Rightarrow> real \<Rightarrow> real \<Rightarrow> real" where
  "clampd v a b = (if v < a then a else (if v > b then b else v))"

definition lerp :: "real \<Rightarrow> real \<Rightarrow> real \<Rightarrow> real" where
  "lerp a b t = a + (b - a) * t"

definition approach :: "real \<Rightarrow> real \<Rightarrow> real \<Rightarrow> real" where
  "approach cur target maxDelta =
     (let d = target - cur
      in if d > maxDelta then cur + maxDelta
         else if d < - maxDelta then cur - maxDelta
         else target)"

subsection \<open>Collisions\<close>

definition in_map :: "Grid \<Rightarrow> int \<Rightarrow> int \<Rightarrow> bool" where
  "in_map g x z \<longleftrightarrow> x \<ge> 0 \<and> z \<ge> 0 \<and> x < map_w g \<and> z < map_h g"

definition tile_at :: "Grid \<Rightarrow> int \<Rightarrow> int \<Rightarrow> 8 word" where
  "tile_at g x z = (if \<not> in_map g x z then TILE_CUBE else map_cells g (z * map_w g + x))"

definition resolve_cube :: "Player \<Rightarrow> int \<Rightarrow> int \<Rightarrow> Player" where
  "resolve_cube p cx cz =
     (let cell_min_x = real_of_int cx * CELL_SIZE;
          cell_max_x = real_of_int (cx + 1) * CELL_SIZE;
          cell_min_y = 0.0;
          cell_max_y = 1.0;
          cell_min_z = real_of_int cz * CELL_SIZE;
          cell_max_z = real_of_int (cz + 1) * CELL_SIZE;
          pmin_x = px p - PLAYER_RADIUS;
          pmax_x = px p + PLAYER_RADIUS;
          pmin_y = py p;
          pmax_y = py p + PLAYER_HEIGHT;
          pmin_z = pz p - PLAYER_RADIUS;
          pmax_z = pz p + PLAYER_RADIUS
      in if pmax_x \<le> cell_min_x \<or> pmin_x \<ge> cell_max_x \<or> pmax_y \<le> cell_min_y
            \<or> pmin_y \<ge> cell_max_y \<or> pmax_z \<le> cell_min_z \<or> pmin_z \<ge> cell_max_z
         then p
         else
           (let pen_x = min (pmax_x - cell_min_x) (cell_max_x - pmin_x);
                pen_y = min (pmax_y - cell_min_y) (cell_max_y - pmin_y);
                pen_z = min (pmax_z - cell_min_z) (cell_max_z - pmin_z)
            in if pen_y \<le> pen_x \<and> pen_y \<le> pen_z then
                 (let cell_center_y = (cell_min_y + cell_max_y) * 0.5;
                      player_center_y = (pmin_y + pmax_y) * 0.5
                  in if player_center_y > cell_center_y
                     then p\<lparr>py := cell_max_y + 0.001, vy := 0.0, grounded := True\<rparr>
                     else (let p1 = p\<lparr>py := cell_min_y - PLAYER_HEIGHT - 0.001\<rparr>
                           in if vy p1 > 0 then p1\<lparr>vy := 0.0\<rparr> else p1))
               else if pen_x \<le> pen_z then
                 (let p1 = (if px p < (cell_min_x + cell_max_x) * 0.5
                            then p\<lparr>px := px p - pen_x\<rparr>
                            else p\<lparr>px := px p + pen_x\<rparr>)
                  in p1\<lparr>vx := vx p1 * 0.3\<rparr>)
               else
                 (let p1 = (if pz p < (cell_min_z + cell_max_z) * 0.5
                            then p\<lparr>pz := pz p - pen_z\<rparr>
                            else p\<lparr>pz := pz p + pen_z\<rparr>)
                  in p1\<lparr>vz := vz p1 * 0.3\<rparr>)))"

definition wedge_height_at_local :: "real \<Rightarrow> real \<Rightarrow> int \<Rightarrow> real" where
  "wedge_height_at_local lx0 lz0 rot =
     (let lx = clampd lx0 0.0 1.0;
          lz = clampd lz0 0.0 1.0
      in if rot = 0 then lx
         else if rot = 1 then 1.0 - lx
         else if rot = 2 then lz
         else 1.0 - lz)"

definition resolve_wedge :: "Player \<Rightarrow> int \<Rightarrow> int \<Rightarrow> int \<Rightarrow> Player" where
  "resolve_wedge p cx cz rot =
     (let lx = px p - real_of_int cx;
          lz = pz p - real_of_int cz
      in if lx < - PLAYER_RADIUS \<or> lx > 1.0 + PLAYER_RADIUS
            \<or> lz < - PLAYER_RADIUS \<or> lz > 1.0 + PLAYER_RADIUS
         then p
         else
           (let surf = wedge_height_at_local lx lz rot
            in if py p \<le> surf + 0.001
               then (let p1 = p\<lparr>py := surf + 0.001\<rparr>;
                         p2 = (if vy p1 < 0.0 then p1\<lparr>vy := 0.0\<rparr> else p1)
                     in p2\<lparr>grounded := True\<rparr>)
               else p))"

text \<open>
  The body of the double loop of \<^verbatim>\<open>resolve_collisions\<close> for the neighbour cell
  \<open>(mx, mz)\<close>; the state is the player and the caller's \<^verbatim>\<open>level_complete\<close> flag.
\<close>

definition resolve_cell :: "Grid \<Rightarrow> int \<Rightarrow> int \<Rightarrow> Player \<times> bool \<Rightarrow> Player \<times> bool" where
  "resolve_cell g mx mz st =
     (case st of (p, level_complete) \<Rightarrow>
        if \<not> in_map g mx mz then (p, level_complete)
        else
          (let t = tile_at g mx mz
           in if t = TILE_CUBE then (resolve_cube p mx mz, level_complete)
              else if t = TILE_WEDGE
                then (resolve_wedge p mx mz (uint (map_rots g (mz * map_w g + mx))), level_complete)
              else if t = TILE_END then
                (let minx = real_of_int mx; maxx = real_of_int (mx + 1);
                     minz = real_of_int mz; maxz = real_of_int (mz + 1)
                 in if px p + PLAYER_RADIUS \<ge> minx \<and> px p - PLAYER_RADIUS \<le> maxx
                       \<and> pz p + PLAYER_RADIUS \<ge> minz \<and> pz p - PLAYER_RADIUS \<le> maxz
                    then (p, True)
                    else (p, level_complete))
              else (p, level_complete)))"

text \<open>
  The double loop itself: \<open>oz\<close> outer, \<open>ox\<close> inner, both over \<open>-1, 0, 1\<close>, around the cell
  \<open>(cx, cz)\<close> computed once before the loop.
\<close>

definition resolve_neighbourhood :: "Grid \<Rightarrow> Player \<times> bool \<Rightarrow> Player \<times> bool" where
  "resolve_neighbourhood g st =
     (let cx = \<lfloor>px (fst st)\<rfloor>;
          cz = \<lfloor>pz (fst st)\<rfloor>
      in fold (\<lambda>oz. fold (\<lambda>ox. resolve_cell g (cx + ox) (cz + oz)) [-1, 0, 1]) [-1, 0, 1] st)"

text \<open>The last statement of \<^verbatim>\<open>resolve_collisions\<close>: the floor at \<open>py = 0\<close>.\<close>

definition floor_clamp :: "Player \<Rightarrow> Player" where
  "floor_clamp p = (if py p < 0.0 then p\<lparr>py := 0.0, vy := 0.0, grounded := True\<rparr> else p)"

definition resolve_collisions :: "Grid \<Rightarrow> Player \<times> bool \<Rightarrow> Player \<times> bool" where
  "resolve_collisions g st =
     (case resolve_neighbourhood g st of (p, level_complete) \<Rightarrow> (floor_clamp p, level_complete))"

subsection \<open>The physics step\<close>

text \<open>
  \<^verbatim>\<open>physics_step\<close> is one C function; it is embedded block by block, in the order of the
  source. First the wish direction: the input vector, normalised when longer than 1,
  rotated by the yaw and normalised again. The result is \<open>(wish_x, wish_z, wish_len)\<close>.
\<close>

definition wish_dir :: "Player \<Rightarrow> Input \<Rightarrow> real \<times> real \<times> real" where
  "wish_dir p inp =
     (let yaw_for_move = yaw p;
          forward_x = sin yaw_for_move;
          forward_z = cos yaw_for_move;
          right_x = forward_z;
          right_z = - forward_x;
          in_len = sqrt (move_fwd inp * move_fwd inp + move_strafe inp * move_strafe inp);
          raw_fwd = (if in_len > 1.0 then move_fwd inp / in_len else move_fwd inp);
          raw_str = (if in_len > 1.0 then move_strafe inp / in_len else move_strafe inp);
          wish_x = forward_x * raw_fwd + right_x * raw_str;
          wish_z = forward_z * raw_fwd + right_z * raw_str;
          wish_len = sqrt (wish_x * wish_x + wish_z * wish_z)
      in if wish_len > 1 / 1000000
         then (wish_x / wish_len, wish_z / wish_len, wish_len)
         else (wish_x, wish_z, wish_len))"

text \<open>Horizontal acceleration towards the target velocity, then friction.\<close>

definition step_horizontal :: "Player \<Rightarrow> Input \<Rightarrow> real \<Rightarrow> Player" where
  "step_horizontal p inp dt =
     (case wish_dir p inp of (wish_x, wish_z, wish_len) \<Rightarrow>
        let accel = (if grounded p then WALK_ACCEL else AIR_ACCEL);
            target_speed = (if grounded p
                            then MAX_WALK_SPEED * (if sprint inp then 1.5 else 1.0)
                            else MAX_WALK_SPEED);
            target_vx = wish_x * target_speed;
            target_vz = wish_z * target_speed;
            maxdv = accel * dt;
            p1 = p\<lparr>vx := approach (vx p) target_vx maxdv\<rparr>;
            p2 = p1\<lparr>vz := approach (vz p1) target_vz maxdv\<rparr>
        in if grounded p2 \<and> wish_len < 1 / 1000
           then (let p3 = p2\<lparr>vx := approach (vx p2) 0.0 (FRICTION * dt)\<rparr>
                 in p3\<lparr>vz := approach (vz p3) 0.0 (FRICTION * dt)\<rparr>)
           else p2)"

text \<open>The update of \<^verbatim>\<open>time_since_grounded\<close>.\<close>

definition step_ground_timer :: "Player \<Rightarrow> real \<Rightarrow> Player" where
  "step_ground_timer p dt =
     (if grounded p then p\<lparr>time_since_grounded := 0.0\<rparr>
      else p\<lparr>time_since_grounded := time_since_grounded p + dt\<rparr>)"

text \<open>Gravity, then the jump with its grace window.\<close>

definition step_gravity_jump :: "Player \<Rightarrow> Input \<Rightarrow> real \<Rightarrow> Player" where
  "step_gravity_jump p inp dt =
     (let p1 = p\<lparr>vy := vy p - GRAVITY * dt\<rparr>
      in if (grounded p1 \<or> time_since_grounded p1 < BUNNY_HOP_TIME) \<and> jump inp
         then p1\<lparr>vy := JUMP_VELOCITY, grounded := False, time_since_grounded := BUNNY_HOP_TIME\<rparr>
         else p1)"

text \<open>The position update.\<close>

definition integrate :: "Player \<Rightarrow> real \<Rightarrow> Player" where
  "integrate p dt =
     (let p1 = p\<lparr>px := px p + vx p * dt\<rparr>;
          p2 = p1\<lparr>py := py p1 + vy p1 * dt\<rparr>
      in p2\<lparr>pz := pz p2 + vz p2 * dt\<rparr>)"

text \<open>The state of the player just before \<^verbatim>\<open>resolve_collisions\<close> is called.\<close>

definition controller :: "Player \<Rightarrow> Input \<Rightarrow> real \<Rightarrow> Player" where
  "controller p inp dt =
     integrate (step_gravity_jump (step_ground_timer (step_horizontal p inp dt) dt) inp dt) dt"

definition physics_step :: "Grid \<Rightarrow> Player \<times> bool \<Rightarrow> Input \<Rightarrow> real \<Rightarrow> Player \<times> bool" where
  "physics_step g st inp dt =
     (case st of (p, level_complete) \<Rightarrow> resolve_collisions g (controller p inp dt, level_complete))"

subsection \<open>The fixed-step driver\<close>

definition PHYS_DT :: real where "PHYS_DT = 1.0 / 120.0"

definition substeps :: nat where "substeps = 2"

text \<open>The \<^verbatim>\<open>for\<close> loop over the sub-steps: the body of the accumulator loop.\<close>

definition fixed_step :: "Grid \<Rightarrow> Input \<Rightarrow> Player \<times> bool \<Rightarrow> Player \<times> bool" where
  "fixed_step g inp st =
     fold (\<lambda>s st'. physics_step g st' inp (PHYS_DT / real substeps)) [0..<substeps] st"

text \<open>
  The accumulator loop \<^verbatim>\<open>while (accumulator >= PHYS_DT)\<close>; it returns the accumulator
  that is left and the stepped state.
\<close>

function step_loop :: "Grid \<Rightarrow> Input \<Rightarrow> real \<Rightarrow> Player \<times> bool \<Rightarrow> real \<times> (Player \<times> bool)" where
  "step_loop g inp accumulator st =
     (if accumulator \<ge> PHYS_DT
      then step_loop g inp (accumulator - PHYS_DT) (fixed_step g inp st)
      else (accumulator, st))"
  by pat_completeness auto
termination
proof (relation "measure (\<lambda>(g, inp, accumulator, st). nat \<lfloor>accumulator * 120\<rfloor>)")
  show "wf (measure (\<lambda>(g, inp, accumulator, st). nat \<lfloor>accumulator * 120\<rfloor>))"
    by simp
next
  fix g :: Grid and inp :: Input and accumulator :: real and st :: "Player \<times> bool"
  assume a: "PHYS_DT \<le> accumulator"
  have one: "1 \<le> accumulator * 120"
    using a by (simp add: PHYS_DT_def)
  have "\<lfloor>(accumulator - PHYS_DT) * 120\<rfloor> = \<lfloor>accumulator * 120\<rfloor> - 1"
    by (simp add: PHYS_DT_def algebra_simps)
  moreover have "1 \<le> \<lfloor>accumulator * 120\<rfloor>"
    using one by (simp add: le_floor_iff)
  ultimately show "((g, inp, accumulator - PHYS_DT, fixed_step g inp st), (g, inp, accumulator, st))
      \<in> measure (\<lambda>(g, inp, accumulator, st). nat \<lfloor>accumulator * 120\<rfloor>)"
    by simp
qed

declare step_loop.simps [simp del]

text \<open>
  What the frame loop carries from one frame to the next: the locals of \<^verbatim>\<open>main\<close>
  (\<^verbatim>\<open>state_prev\<close>, \<^verbatim>\<open>state_curr\<close>, \<^verbatim>\<open>accumulator\<close>, \<^verbatim>\<open>level_complete\<close>) and the globals
  that the look mapper reads and writes (the smoothed mouse deltas, the settings and
  \<^verbatim>\<open>menu_open\<close>).
\<close>

record Driver =
  state_prev :: Player
  state_curr :: Player
  accumulator :: real
  level_complete :: bool
  mouse_dx_smooth :: real
  mouse_dy_smooth :: real
  mouse_sensitivity :: real
  invert_mouse_y :: bool
  invert_mouse_x :: bool
  menu_open :: bool

definition MOUSE_SMOOTH :: real where "MOUSE_SMOOTH = 0.6"

text \<open>
  The head of a frame: the measured time since the last frame, \<open>cur - prev_time\<close>, is
  clamped and added to the accumulator.
\<close>

definition advance_clock :: "real \<Rightarrow> Driver \<Rightarrow> Driver" where
  "advance_clock elapsed d =
     (let frame_dt = clampd elapsed 0.0 0.25
      in d\<lparr>accumulator := accumulator d + frame_dt\<rparr>)"

text \<open>The block under \<^verbatim>\<open>/* physics stepping */\<close>, up to the end of the loop.\<close>

definition step_frame :: "Grid \<Rightarrow> Input \<Rightarrow> Driver \<Rightarrow> Driver" where
  "step_frame g inp d =
     (let d1 = d\<lparr>state_prev := state_curr d\<rparr>
      in case step_loop g inp (accumulator d1) (state_curr d1, level_complete d1) of
           (acc, (p, lc)) \<Rightarrow> d1\<lparr>state_curr := p, accumulator := acc, level_complete := lc\<rparr>)"

definition alpha_of :: "Driver \<Rightarrow> real" where
  "alpha_of d = accumulator d / PHYS_DT"

text \<open>
  The interpolated player handed to the camera and the HUD. \<^verbatim>\<open>render_player\<close> is an
  uninitialised local of which nine fields are assigned; \<open>r0\<close> is its content before.
\<close>

definition render_player :: "Player \<Rightarrow> Driver \<Rightarrow> Player" where
  "render_player r0 d =
     (let alpha = alpha_of d; prev = state_prev d; curr = state_curr d
      in r0\<lparr>px := px prev + (px curr - px prev) * alpha,
            py := py prev + (py curr - py prev) * alpha,
            pz := pz prev + (pz curr - pz prev) * alpha,
            vx := vx prev + (vx curr - vx prev) * alpha,
            vy := vy prev + (vy curr - vy prev) * alpha,
            vz := vz prev + (vz curr - vz prev) * alpha,
            yaw := yaw prev + (yaw curr - yaw prev) * alpha,
            pitch := pitch prev + (pitch curr - pitch prev) * alpha,
            grounded := grounded curr\<rparr>)"

text \<open>
  The block under \<^verbatim>\<open>/* mouse smoothing and apply to camera yaw/pitch */\<close>: it runs once
  per frame, before the stepping, and rewrites the yaw and the pitch of \<^verbatim>\<open>state_curr\<close> from
  the mouse deltas of the frame's input.
\<close>

definition apply_look :: "Input \<Rightarrow> Driver \<Rightarrow> Driver" where
  "apply_look inp d =
     (let d1 = d\<lparr>mouse_dx_smooth :=
                  lerp (mouse_dx_smooth d) (real_of_int (mouse_dx inp)) (1.0 - MOUSE_SMOOTH)\<rparr>;
          d2 = d1\<lparr>mouse_dy_smooth :=
                  lerp (mouse_dy_smooth d1) (real_of_int (mouse_dy inp)) (1.0 - MOUSE_SMOOTH)\<rparr>
      in if \<not> menu_open d2
         then
           (let xsign = (if invert_mouse_x d2 then - 1.0 else 1.0);
                c1 = (state_curr d2)\<lparr>yaw := yaw (state_curr d2)
                       + xsign * mouse_dx_smooth d2 * mouse_sensitivity d2\<rparr>;
                ysign = (if invert_mouse_y d2 then 1.0 else - 1.0);
                c2 = c1\<lparr>pitch := pitch c1 + ysign * mouse_dy_smooth d2 * mouse_sensitivity d2\<rparr>;
                c3 = c2\<lparr>pitch := clampd (pitch c2) (- 1.45) 1.45\<rparr>
            in d2\<lparr>state_curr := c3\<rparr>)
         else d2)"

text \<open>
  One frame of the driver: the clock, the look mapper, the stepping. Event polling and the
  reading of the keys, which run between the clock and the look mapper, are not modelled:
  \<open>inp\<close> is the input they leave behind, and the settings and \<^verbatim>\<open>menu_open\<close> are as they
  stand after them. Neither is the restart key at the end of the frame.
\<close>

definition frame :: "Grid \<Rightarrow> Input \<Rightarrow> real \<Rightarrow> Driver \<Rightarrow> Driver" where
  "frame g inp elapsed d = step_frame g inp (apply_look inp (advance_clock elapsed d))"

fun run_frames :: "Grid \<Rightarrow> (real \<times> Input) list \<Rightarrow> Driver \<Rightarrow> Driver" where
  "run_frames g [] d = d"
| "run_frames g ((elapsed, inp) # fs) d = run_frames g fs (frame g inp elapsed d)"

text \<open>
  The state as \<^verbatim>\<open>main\<close> has it before its first frame, with the globals at their
  initialisers.
\<close>

definition initial_player :: Player where
  "initial_player = \<lparr>px = 3.5, py = 2.0, pz = 3.5, vx = 0, vy = 0, vz = 0, yaw = 0.0, pitch = 0.0,
     grounded = False, time_since_grounded = 0\<rparr>"

definition initial_driver :: Driver where
  "initial_driver = \<lparr>state_prev = initial_player, state_curr = initial_player,
     accumulator = 0.0, level_complete = False,
     mouse_dx_smooth = 0.0, mouse_dy_smooth = 0.0, mouse_sensitivity = 0.0028,
     invert_mouse_y = True, invert_mouse_x = False, menu_open = False\<rparr>"

section \<open>Notions of the specification\<close>

text \<open>
  The player's box against the unit cube of the cell \<open>(cx, cz)\<close>: the two overlap when they
  share interior points. Every solid part of a cell lies inside its unit cube.
\<close>

definition aabb_overlaps_cell :: "Player \<Rightarrow> int \<Rightarrow> int \<Rightarrow> bool" where
  "aabb_overlaps_cell p cx cz \<longleftrightarrow>
     real_of_int cx < px p + PLAYER_RADIUS \<and> px p - PLAYER_RADIUS < real_of_int cx + 1
     \<and> 0 < py p + PLAYER_HEIGHT \<and> py p < 1
     \<and> real_of_int cz < pz p + PLAYER_RADIUS \<and> pz p - PLAYER_RADIUS < real_of_int cz + 1"

text \<open>Penetration depth of the interval \<open>A\<close> into the interval \<open>B\<close>, as the specification words it.\<close>

definition pen_depth :: "real \<Rightarrow> real \<Rightarrow> real \<Rightarrow> real \<Rightarrow> real" where
  "pen_depth minA maxA minB maxB = min (maxA - minB) (maxB - minA)"

definition pen_x :: "Player \<Rightarrow> int \<Rightarrow> real" where
  "pen_x p cx =
     pen_depth (px p - PLAYER_RADIUS) (px p + PLAYER_RADIUS) (real_of_int cx) (real_of_int cx + 1)"

definition pen_y :: "Player \<Rightarrow> real" where
  "pen_y p = pen_depth (py p) (py p + PLAYER_HEIGHT) 0 1"

definition pen_z :: "Player \<Rightarrow> int \<Rightarrow> real" where
  "pen_z p cz =
     pen_depth (pz p - PLAYER_RADIUS) (pz p + PLAYER_RADIUS) (real_of_int cz) (real_of_int cz + 1)"

text \<open>
  The height field of a wedge as the specification words it: over the unit square the height
  rises with \<open>x\<close> (rotation 0), falls with \<open>x\<close> (rotation 1), rises with \<open>z\<close> (rotation 2) or
  falls with \<open>z\<close> (rotation 3, and every other value the byte may hold); a coordinate outside
  the unit interval is clamped to it first.
\<close>

definition unit_clamp :: "real \<Rightarrow> real" where
  "unit_clamp x = max 0 (min 1 x)"

definition height_field :: "int \<Rightarrow> real \<Rightarrow> real \<Rightarrow> real" where
  "height_field rot x z =
     (if rot = 0 then x
      else if rot = 1 then 1 - x
      else if rot = 2 then z
      else 1 - z)"

text \<open>
  The wedge of cell \<open>(cx, cz)\<close> reaches the player: the centre is inside the footprint
  inflated by the radius and the foot is at most \<open>0.001\<close> above the height field.
\<close>

definition wedge_in_reach :: "Player \<Rightarrow> int \<Rightarrow> int \<Rightarrow> int \<Rightarrow> bool" where
  "wedge_in_reach p cx cz rot \<longleftrightarrow>
     - PLAYER_RADIUS \<le> px p - real_of_int cx \<and> px p - real_of_int cx \<le> 1 + PLAYER_RADIUS
     \<and> - PLAYER_RADIUS \<le> pz p - real_of_int cz \<and> pz p - real_of_int cz \<le> 1 + PLAYER_RADIUS
     \<and> py p \<le> wedge_height_at_local (px p - real_of_int cx) (pz p - real_of_int cz) rot + 0.001"

text \<open>The player's horizontal footprint touches the unit square of the cell.\<close>

definition footprint_on_cell :: "Player \<Rightarrow> int \<Rightarrow> int \<Rightarrow> bool" where
  "footprint_on_cell p mx mz \<longleftrightarrow>
     px p + PLAYER_RADIUS \<ge> real_of_int mx \<and> px p - PLAYER_RADIUS \<le> real_of_int (mx + 1)
     \<and> pz p + PLAYER_RADIUS \<ge> real_of_int mz \<and> pz p - PLAYER_RADIUS \<le> real_of_int (mz + 1)"

text \<open>Some cell of the 3 by 3 block around \<open>(cx, cz)\<close> is inside the map and a goal.\<close>

definition goal_near :: "Grid \<Rightarrow> int \<Rightarrow> int \<Rightarrow> bool" where
  "goal_near g cx cz \<longleftrightarrow>
     (\<exists>oz \<in> {-1, 0, 1}. \<exists>ox \<in> {-1, 0, 1}.
        in_map g (cx + ox) (cz + oz) \<and> tile_at g (cx + ox) (cz + oz) = TILE_END)"

text \<open>
  The number of whole fixed steps an accumulator holds, the intent of every fixed step that a
  list of frames runs, and the state after the first \<open>n\<close> fixed steps of a list of intents.
\<close>

definition steps_due :: "real \<Rightarrow> nat" where
  "steps_due acc = nat \<lfloor>acc / PHYS_DT\<rfloor>"





section \<open>Maps, players and inputs used as examples\<close>

text \<open>A map of one column: a cube in the first cell, three empty cells behind it.\<close>

definition ledge_map :: Grid where
  "ledge_map = \<lparr>map_w = 1, map_h = 4,
     map_cells = (\<lambda>i. if i = 0 then TILE_CUBE else TILE_EMPTY), map_rots = (\<lambda>i. 0)\<rparr>"

text \<open>A map of 2 by 2 empty cells, and a map that is one goal cell.\<close>

definition open_map :: Grid where
  "open_map = \<lparr>map_w = 2, map_h = 2, map_cells = (\<lambda>i. TILE_EMPTY), map_rots = (\<lambda>i. 0)\<rparr>"

definition goal_map :: Grid where
  "goal_map = \<lparr>map_w = 1, map_h = 1, map_cells = (\<lambda>i. TILE_END), map_rots = (\<lambda>i. 0)\<rparr>"

definition idle :: Input where
  "idle = \<lparr>move_fwd = 0, move_strafe = 0, jump = False, sprint = False, mouse_dx = 0, mouse_dy = 0\<rparr>"


definition walk :: Input where
  "walk = \<lparr>move_fwd = 1, move_strafe = 0, jump = False, sprint = False, mouse_dx = 0, mouse_dy = 0\<rparr>"

definition walk_jump :: Input where
  "walk_jump = \<lparr>move_fwd = 1, move_strafe = 0, jump = True, sprint = False, mouse_dx = 0, mouse_dy = 0\<rparr>"

text \<open>
  A player standing on top of the cube of \<open>ledge_map\<close>, at its far edge, walking forward
  (towards growing \<open>z\<close>) at full speed.
\<close>

definition on_ledge :: Player where
  "on_ledge = \<lparr>px = 0.5, py = 1.001, pz = 1.27, vx = 0, vy = 0, vz = 7, yaw = 0, pitch = 0,
     grounded = True, time_since_grounded = 0\<rparr>"

text \<open>The same player 30 sub-steps (an eighth of a second) later: past the cube, in the air.\<close>

definition falling :: Player where
  "falling = \<lparr>px = 1 / 2, py = 20149 / 24000, pz = 429 / 200, vx = 0, vy = - 5 / 2, vz = 7,
     yaw = 0, pitch = 0, grounded = True, time_since_grounded = 0\<rparr>"

text \<open>
  A player on the floor of \<open>open_map\<close>, one hundredth of a cell from its western border and
  sliding west; and the same player one sub-step later.
\<close>

definition at_edge :: Player where
  "at_edge = \<lparr>px = 0.01, py = 0, pz = 0.5, vx = - 7, vy = 0, vz = 0, yaw = 0, pitch = 0,
     grounded = True, time_since_grounded = 0\<rparr>"

definition past_edge :: Player where
  "past_edge = \<lparr>px = - 499 / 28800, py = 0, pz = 0.5, vx = - 787 / 120, vy = 0, vz = 0,
     yaw = 0, pitch = 0, grounded = True, time_since_grounded = 0\<rparr>"

text \<open>A player whose foot is half a millimetre above the top of cell \<open>(0, 0)\<close>.\<close>

definition hover_player :: Player where
  "hover_player = \<lparr>px = 1, py = 1.0005, pz = 0.5, vx = 0, vy = 0, vz = 0, yaw = 0, pitch = 0,
     grounded = False, time_since_grounded = 0\<rparr>"

text \<open>A player beside the cell \<open>(0, 0)\<close>: past its side \<open>x = 1\<close> and before its side \<open>z = 0\<close>.\<close>

definition beside_player :: Player where
  "beside_player = \<lparr>px = 1.2, py = 0.3, pz = - 0.1, vx = 1, vy = 4, vz = 2, yaw = 0, pitch = 0,
     grounded = False, time_since_grounded = 0.05\<rparr>"

text \<open>A falling player low inside cell \<open>(0, 0)\<close>, off its middle in both directions.\<close>

definition slope_player :: Player where
  "slope_player = \<lparr>px = 0.25, py = 0.2, pz = 0.6, vx = 1, vy = - 3, vz = 2, yaw = 0, pitch = 0,
     grounded = False, time_since_grounded = 0.05\<rparr>"

text \<open>A falling player low inside cell \<open>(0, 0)\<close>, in the middle of it.\<close>

definition sunk_player :: Player where
  "sunk_player = \<lparr>px = 0.5, py = 0.2, pz = 0.5, vx = 1, vy = - 3, vz = 2, yaw = 0, pitch = 0,
     grounded = False, time_since_grounded = 0.05\<rparr>"

text \<open>Two more players in that cell: one just under its top, one near its side \<open>z = 0\<close>.\<close>

definition landing_player :: Player where
  "landing_player = \<lparr>px = 0.5, py = 0.95, pz = 0.5, vx = 1, vy = - 3, vz = 2, yaw = 0, pitch = 0,
     grounded = False, time_since_grounded = 0.05\<rparr>"

definition side_player :: Player where
  "side_player = \<lparr>px = 0.5, py = 0.2, pz = 0.1, vx = 1, vy = - 3, vz = 2, yaw = 0, pitch = 0,
     grounded = False, time_since_grounded = 0.05\<rparr>"


section \<open>Properties\<close>

subsection \<open>The grid, and the loop over the neighbour cells\<close>

text \<open>A cell that passes \<^verbatim>\<open>in_map\<close> is read inside the two arrays.\<close>

lemma in_map_offset:
  assumes "in_map g x z"
  shows "0 \<le> z * map_w g + x \<and> z * map_w g + x < map_w g * map_h g"
proof -
  from assms have x: "0 \<le> x" "x < map_w g" and z: "0 \<le> z" "z + 1 \<le> map_h g"
    by (simp_all add: in_map_def)
  have "(z + 1) * map_w g \<le> map_h g * map_w g"
    using z(2) x by (intro mult_right_mono) simp_all
  then have "z * map_w g + map_w g \<le> map_w g * map_h g"
    by (simp add: algebra_simps)
  moreover have "0 \<le> z * map_w g"
    using z(1) x by simp
  ultimately show ?thesis
    using x by linarith
qed

text \<open>
  Whatever holds before the double loop and is kept by the body for each of the nine cells
  holds after it.
\<close>

lemma fold_cells_invariant:
  assumes step: "\<And>ox oz s. ox \<in> set xs \<Longrightarrow> oz \<in> set zs \<Longrightarrow> P s
      \<Longrightarrow> P (resolve_cell g (cx + ox) (cz + oz) s)"
  shows "P st \<Longrightarrow> P (fold (\<lambda>oz. fold (\<lambda>ox. resolve_cell g (cx + ox) (cz + oz)) xs) zs st)"
  using step
proof (induction zs arbitrary: st)
  case Nil
  then show ?case by simp
next
  case (Cons z zs)
  have inner: "set ys \<subseteq> set xs \<Longrightarrow> P s
      \<Longrightarrow> P (fold (\<lambda>ox. resolve_cell g (cx + ox) (cz + z)) ys s)" for s ys
    by (induction ys arbitrary: s) (simp_all add: Cons.prems(2))
  have "P (fold (\<lambda>ox. resolve_cell g (cx + ox) (cz + z)) xs st)"
    using Cons.prems(1) by (simp add: inner)
  then have "P (fold (\<lambda>oz. fold (\<lambda>ox. resolve_cell g (cx + ox) (cz + oz)) xs) zs
      (fold (\<lambda>ox. resolve_cell g (cx + ox) (cz + z)) xs st))"
    by (rule Cons.IH) (simp add: Cons.prems(2))
  then show ?case by simp
qed

lemma resolve_neighbourhood_invariant:
  assumes "\<And>ox oz s. ox \<in> {-1, 0, 1} \<Longrightarrow> oz \<in> {-1, 0, 1} \<Longrightarrow> P s
      \<Longrightarrow> P (resolve_cell g (\<lfloor>px (fst st)\<rfloor> + ox) (\<lfloor>pz (fst st)\<rfloor> + oz) s)"
    and "P st"
  shows "P (resolve_neighbourhood g st)"
  unfolding resolve_neighbourhood_def Let_def
  by (rule fold_cells_invariant) (simp_all add: assms)

subsection \<open>What the resolvers leave alone\<close>

lemma resolve_cube_keeps:
  "yaw (resolve_cube p cx cz) = yaw p"
  "pitch (resolve_cube p cx cz) = pitch p"
  "time_since_grounded (resolve_cube p cx cz) = time_since_grounded p"
  "grounded p \<Longrightarrow> grounded (resolve_cube p cx cz)"
  by (simp_all add: resolve_cube_def Let_def)

lemma resolve_wedge_keeps:
  "yaw (resolve_wedge p cx cz rot) = yaw p"
  "pitch (resolve_wedge p cx cz rot) = pitch p"
  "time_since_grounded (resolve_wedge p cx cz rot) = time_since_grounded p"
  "grounded p \<Longrightarrow> grounded (resolve_wedge p cx cz rot)"
  by (simp_all add: resolve_wedge_def Let_def)

lemma resolve_cell_keeps:
  "yaw (fst (resolve_cell g mx mz st)) = yaw (fst st)"
  "pitch (fst (resolve_cell g mx mz st)) = pitch (fst st)"
  "time_since_grounded (fst (resolve_cell g mx mz st)) = time_since_grounded (fst st)"
  "grounded (fst st) \<Longrightarrow> grounded (fst (resolve_cell g mx mz st))"
  by (simp_all add: resolve_cell_def case_prod_beta Let_def resolve_cube_keeps resolve_wedge_keeps)

lemma floor_clamp_keeps:
  "yaw (floor_clamp p) = yaw p"
  "pitch (floor_clamp p) = pitch p"
  "time_since_grounded (floor_clamp p) = time_since_grounded p"
  "grounded p \<Longrightarrow> grounded (floor_clamp p)"
  by (simp_all add: floor_clamp_def)

lemma resolve_collisions_keeps:
  "yaw (fst (resolve_collisions g st)) = yaw (fst st)"
  "pitch (fst (resolve_collisions g st)) = pitch (fst st)"
  "time_since_grounded (fst (resolve_collisions g st)) = time_since_grounded (fst st)"
  "grounded (fst st) \<Longrightarrow> grounded (fst (resolve_collisions g st))"
proof -
  let ?P = "\<lambda>s. yaw (fst s) = yaw (fst st) \<and> pitch (fst s) = pitch (fst st)
      \<and> time_since_grounded (fst s) = time_since_grounded (fst st)
      \<and> (grounded (fst st) \<longrightarrow> grounded (fst s))"
  have "?P (resolve_neighbourhood g st)"
    by (rule resolve_neighbourhood_invariant) (simp_all add: resolve_cell_keeps)
  then show "yaw (fst (resolve_collisions g st)) = yaw (fst st)"
    "pitch (fst (resolve_collisions g st)) = pitch (fst st)"
    "time_since_grounded (fst (resolve_collisions g st)) = time_since_grounded (fst st)"
    "grounded (fst st) \<Longrightarrow> grounded (fst (resolve_collisions g st))"
    by (simp_all add: resolve_collisions_def case_prod_beta floor_clamp_keeps)
qed

lemma controller_keeps:
  "yaw (controller p inp dt) = yaw p"
  "pitch (controller p inp dt) = pitch p"
  by (simp_all add: controller_def integrate_def step_gravity_jump_def step_ground_timer_def
      step_horizontal_def Let_def case_prod_beta)

subsection \<open>The example maps\<close>

lemma open_cell_idle: "resolve_cell open_map mx mz st = st"
  by (simp add: resolve_cell_def tile_at_def open_map_def case_prod_beta Let_def TILE_CUBE_def
      TILE_EMPTY_def TILE_WEDGE_def TILE_END_def)

lemma open_neighbourhood_idle: "resolve_neighbourhood open_map st = st"
  by (rule resolve_neighbourhood_invariant [where P = "\<lambda>s. s = st"]) (simp_all add: open_cell_idle)

lemma at_edge_controller:
  "controller at_edge idle (1 / 240) =
     \<lparr>px = - 499 / 28800, py = - 1 / 2880, pz = 0.5, vx = - 787 / 120, vy = - 1 / 12, vz = 0,
      yaw = 0, pitch = 0, grounded = True, time_since_grounded = 0\<rparr>"
proof -
  have w: "wish_dir at_edge idle = (0, 0, 0)"
    by (simp add: wish_dir_def at_edge_def idle_def Let_def)
  have h: "step_horizontal at_edge idle (1 / 240) = at_edge\<lparr>vx := - 787 / 120\<rparr>"
    unfolding step_horizontal_def w
    by (simp add: at_edge_def idle_def approach_def Let_def WALK_ACCEL_def MAX_WALK_SPEED_def
        FRICTION_def)
  show ?thesis
    unfolding controller_def h
    by (simp add: at_edge_def idle_def step_ground_timer_def step_gravity_jump_def integrate_def
        Let_def GRAVITY_def)
qed

lemma at_edge_step: "physics_step open_map (at_edge, False) idle (1 / 240) = (past_edge, False)"
  by (simp add: physics_step_def at_edge_controller open_neighbourhood_idle resolve_collisions_def
      floor_clamp_def past_edge_def)

lemma ledge_cube_clear:
  assumes "1 + PLAYER_RADIUS \<le> pz p"
  shows "resolve_cube p 0 0 = p"
proof -
  have "real_of_int (0 + 1) * CELL_SIZE \<le> pz p - PLAYER_RADIUS"
    using assms by (simp add: CELL_SIZE_def)
  then show ?thesis
    unfolding resolve_cube_def Let_def by simp
qed

lemma ledge_cell_idle:
  assumes "1 + PLAYER_RADIUS \<le> pz p"
  shows "resolve_cell ledge_map mx mz (p, lc) = (p, lc)"
proof (cases "in_map ledge_map mx mz")
  case False
  then show ?thesis by (simp add: resolve_cell_def)
next
  case True
  then have mx: "mx = 0" and mz: "0 \<le> mz" "mz < 4"
    by (simp_all add: in_map_def ledge_map_def)
  show ?thesis
  proof (cases "mz = 0")
    case True
    then show ?thesis
      using mx assms
      by (simp add: resolve_cell_def tile_at_def in_map_def ledge_map_def ledge_cube_clear)
  next
    case False
    then show ?thesis
      using mx mz
      by (simp add: resolve_cell_def tile_at_def in_map_def ledge_map_def TILE_CUBE_def
          TILE_EMPTY_def TILE_WEDGE_def TILE_END_def)
  qed
qed

lemma ledge_neighbourhood_idle:
  assumes "1 + PLAYER_RADIUS \<le> pz p"
  shows "resolve_neighbourhood ledge_map (p, lc) = (p, lc)"
  by (rule resolve_neighbourhood_invariant [where P = "\<lambda>s. s = (p, lc)"])
    (simp_all add: ledge_cell_idle assms)

lemma wish_dir_forward:
  "yaw p = 0 \<Longrightarrow> wish_dir p walk = (0, 1, 1)"
  "yaw p = 0 \<Longrightarrow> wish_dir p walk_jump = (0, 1, 1)"
  by (simp_all add: wish_dir_def walk_def walk_jump_def Let_def)

text \<open>
  One sub-step of a player that walks forward past the cube of \<open>ledge_map\<close> and does not
  reach the floor in it: nothing but gravity and the walk.
\<close>

lemma ledge_fall_step:
  assumes "32 / 25 \<le> z + 7 / 240" "0 \<le> y + (v - 1 / 12) / 240"
  shows "physics_step ledge_map
       (\<lparr>px = 1 / 2, py = y, pz = z, vx = 0, vy = v, vz = 7, yaw = 0, pitch = 0,
          grounded = True, time_since_grounded = t\<rparr>, lc) walk (1 / 240)
     = (\<lparr>px = 1 / 2, py = y + (v - 1 / 12) / 240, pz = z + 7 / 240, vx = 0, vy = v - 1 / 12,
          vz = 7, yaw = 0, pitch = 0, grounded = True, time_since_grounded = 0\<rparr>, lc)"
proof -
  let ?p = "\<lparr>px = 1 / 2, py = y, pz = z, vx = 0, vy = v, vz = 7, yaw = 0, pitch = 0,
          grounded = True, time_since_grounded = t\<rparr>"
  let ?q = "\<lparr>px = 1 / 2, py = y + (v - 1 / 12) / 240, pz = z + 7 / 240, vx = 0, vy = v - 1 / 12,
          vz = 7, yaw = 0, pitch = 0, grounded = True, time_since_grounded = 0\<rparr>"
  have w: "wish_dir ?p walk = (0, 1, 1)"
    by (simp add: wish_dir_forward)
  have h: "step_horizontal ?p walk (1 / 240) = ?p"
    unfolding step_horizontal_def w
    by (simp add: approach_def Let_def walk_def WALK_ACCEL_def MAX_WALK_SPEED_def)
  have c: "controller ?p walk (1 / 240) = ?q"
    unfolding controller_def h
    by (simp add: step_ground_timer_def step_gravity_jump_def integrate_def Let_def walk_def
        GRAVITY_def)
  have "1 + PLAYER_RADIUS \<le> pz ?q"
    using assms(1) by (simp add: PLAYER_RADIUS_def)
  then have "resolve_neighbourhood ledge_map (?q, lc) = (?q, lc)"
    by (rule ledge_neighbourhood_idle)
  then show ?thesis
    using assms(2) by (simp add: physics_step_def c resolve_collisions_def floor_clamp_def)
qed

text \<open>The same sub-step with the jump key down.\<close>

lemma ledge_jump_step:
  assumes "32 / 25 \<le> z + 7 / 240" "0 \<le> y + 1 / 30"
  shows "physics_step ledge_map
       (\<lparr>px = 1 / 2, py = y, pz = z, vx = 0, vy = v, vz = 7, yaw = 0, pitch = 0,
          grounded = True, time_since_grounded = t\<rparr>, lc) walk_jump (1 / 240)
     = (\<lparr>px = 1 / 2, py = y + 1 / 30, pz = z + 7 / 240, vx = 0, vy = 8, vz = 7,
          yaw = 0, pitch = 0, grounded = False, time_since_grounded = 1 / 10\<rparr>, lc)"
proof -
  let ?p = "\<lparr>px = 1 / 2, py = y, pz = z, vx = 0, vy = v, vz = 7, yaw = 0, pitch = 0,
          grounded = True, time_since_grounded = t\<rparr>"
  let ?q = "\<lparr>px = 1 / 2, py = y + 1 / 30, pz = z + 7 / 240, vx = 0, vy = 8, vz = 7,
          yaw = 0, pitch = 0, grounded = False, time_since_grounded = 1 / 10\<rparr>"
  have w: "wish_dir ?p walk_jump = (0, 1, 1)"
    by (simp add: wish_dir_forward)
  have h: "step_horizontal ?p walk_jump (1 / 240) = ?p"
    unfolding step_horizontal_def w
    by (simp add: approach_def Let_def walk_jump_def WALK_ACCEL_def MAX_WALK_SPEED_def)
  have c: "controller ?p walk_jump (1 / 240) = ?q"
    unfolding controller_def h
    by (simp add: step_ground_timer_def step_gravity_jump_def integrate_def Let_def walk_jump_def
        GRAVITY_def JUMP_VELOCITY_def BUNNY_HOP_TIME_def)
  have "1 + PLAYER_RADIUS \<le> pz ?q"
    using assms(1) by (simp add: PLAYER_RADIUS_def)
  then have "resolve_neighbourhood ledge_map (?q, lc) = (?q, lc)"
    by (rule ledge_neighbourhood_idle)
  then show ?thesis
    using assms(2) by (simp add: physics_step_def c resolve_collisions_def floor_clamp_def)
qed

lemma ledge_fall:
  "(fixed_step ledge_map walk ^^ 15) (on_ledge, False) = (falling, False)"
  by (simp add: fixed_step_def substeps_def PHYS_DT_def eval_nat_numeral on_ledge_def falling_def
      ledge_fall_step)

subsection \<open>Lookups outside the grid\<close>

text \<open>
  The guard of the loop: for a cell outside the grid the lookup \<^verbatim>\<open>tile_at\<close> answers "cube",
  but the loop body of \<^verbatim>\<open>resolve_collisions\<close> leaves the cell out before it looks the tile
  up, and changes neither the player nor the flag.
\<close>

lemma out_of_map_skipped:
  "\<not> in_map g x z \<Longrightarrow> tile_at g x z = TILE_CUBE \<and> resolve_cell g x z st = st"
  by (simp add: tile_at_def resolve_cell_def case_prod_beta)

text \<open>
  Claim C1 says that a cell outside the grid is resolved as a solid cube, exactly like a cube
  inside it, so that the player can never pass the border of the grid. The code does not do
  so: the wall that \<^verbatim>\<open>tile_at\<close> builds is never reached. On \<open>open_map\<close> the player
  \<open>at_edge\<close> is inside the grid; one sub-step later its centre is in the cell \<open>(-1, 0)\<close>,
  which is outside the grid and a cube by \<^verbatim>\<open>tile_at\<close>; the loop body does nothing for that
  cell, while the cube resolver, had it been called as for a cube inside the grid, would have
  put the player back at \<open>px = 0.28\<close>.
\<close>

theorem boundary_crossed:
  "in_map open_map \<lfloor>px at_edge\<rfloor> \<lfloor>pz at_edge\<rfloor>
   \<and> physics_step open_map (at_edge, False) idle (1 / 240) = (past_edge, False)
   \<and> \<not> in_map open_map \<lfloor>px past_edge\<rfloor> \<lfloor>pz past_edge\<rfloor>
   \<and> tile_at open_map \<lfloor>px past_edge\<rfloor> \<lfloor>pz past_edge\<rfloor> = TILE_CUBE
   \<and> resolve_cell open_map \<lfloor>px past_edge\<rfloor> \<lfloor>pz past_edge\<rfloor> (past_edge, False)
        = (past_edge, False)
   \<and> resolve_cube past_edge \<lfloor>px past_edge\<rfloor> \<lfloor>pz past_edge\<rfloor>
        = past_edge\<lparr>px := 0.28, vx := - 787 / 400\<rparr>"
proof -
  have fl: "\<lfloor>px past_edge\<rfloor> = - 1" "\<lfloor>pz past_edge\<rfloor> = 0" "\<lfloor>px at_edge\<rfloor> = 0" "\<lfloor>pz at_edge\<rfloor> = 0"
    by (simp_all add: past_edge_def at_edge_def)
  have cube: "resolve_cube past_edge (- 1) 0 = past_edge\<lparr>px := 0.28, vx := - 787 / 400\<rparr>"
    by (simp add: resolve_cube_def past_edge_def Let_def CELL_SIZE_def PLAYER_RADIUS_def
        PLAYER_HEIGHT_def)
  have skip: "\<not> in_map open_map (- 1) 0" "in_map open_map 0 0"
    by (simp_all add: in_map_def open_map_def)
  show ?thesis
    unfolding fl
    by (simp add: at_edge_step cube skip tile_at_def resolve_cell_def)
qed

subsection \<open>The cube resolver\<close>

text \<open>The resolver in terms of the overlap and the three depths.\<close>

lemma resolve_cube_cases:
  "resolve_cube p cx cz =
     (if \<not> aabb_overlaps_cell p cx cz then p
      else if pen_y p \<le> pen_x p cx \<and> pen_y p \<le> pen_z p cz then
        (if py p + PLAYER_HEIGHT / 2 > 1 / 2
         then p\<lparr>py := 1.001, vy := 0, grounded := True\<rparr>
         else p\<lparr>py := - PLAYER_HEIGHT - 0.001, vy := (if vy p > 0 then 0 else vy p)\<rparr>)
      else if pen_x p cx \<le> pen_z p cz then
        (if px p < real_of_int cx + 1 / 2
         then p\<lparr>px := px p - pen_x p cx, vx := vx p * 0.3\<rparr>
         else p\<lparr>px := px p + pen_x p cx, vx := vx p * 0.3\<rparr>)
      else
        (if pz p < real_of_int cz + 1 / 2
         then p\<lparr>pz := pz p - pen_z p cz, vz := vz p * 0.3\<rparr>
         else p\<lparr>pz := pz p + pen_z p cz, vz := vz p * 0.3\<rparr>))"
proof (cases "aabb_overlaps_cell p cx cz")
  case False
  then have "px p + PLAYER_RADIUS \<le> real_of_int cx \<or> real_of_int cx + 1 \<le> px p - PLAYER_RADIUS
      \<or> py p + PLAYER_HEIGHT \<le> 0 \<or> 1 \<le> py p
      \<or> pz p + PLAYER_RADIUS \<le> real_of_int cz \<or> real_of_int cz + 1 \<le> pz p - PLAYER_RADIUS"
    unfolding aabb_overlaps_cell_def by linarith
  then have "resolve_cube p cx cz = p"
    unfolding resolve_cube_def Let_def CELL_SIZE_def by simp
  with False show ?thesis by simp
next
  case True
  then have olap: "\<not> px p + PLAYER_RADIUS \<le> real_of_int cx"
      "\<not> real_of_int cx + 1 \<le> px p - PLAYER_RADIUS"
      "\<not> py p + PLAYER_HEIGHT \<le> 0" "\<not> 1 \<le> py p"
      "\<not> pz p + PLAYER_RADIUS \<le> real_of_int cz"
      "\<not> real_of_int cz + 1 \<le> pz p - PLAYER_RADIUS"
    by (auto simp: aabb_overlaps_cell_def)
  have pens: "min (px p + PLAYER_RADIUS - real_of_int cx)
        (real_of_int cx + 1 - (px p - PLAYER_RADIUS)) = pen_x p cx"
    "min (py p + PLAYER_HEIGHT) (1 - py p) = pen_y p"
    "min (pz p + PLAYER_RADIUS - real_of_int cz)
        (real_of_int cz + 1 - (pz p - PLAYER_RADIUS)) = pen_z p cz"
    by (simp_all add: pen_x_def pen_y_def pen_z_def pen_depth_def)
  show ?thesis
    unfolding resolve_cube_def Let_def CELL_SIZE_def
    using True olap by (simp add: pens)
qed

lemma pen_positive:
  assumes "aabb_overlaps_cell p cx cz"
  shows "0 < pen_x p cx" "0 < pen_y p" "0 < pen_z p cz"
  using assms by (simp_all add: aabb_overlaps_cell_def pen_x_def pen_y_def pen_z_def pen_depth_def)

text \<open>On overlap the cube resolver always moves the player.\<close>

lemma resolve_cube_moves:
  assumes "aabb_overlaps_cell p cx cz"
  shows "resolve_cube p cx cz \<noteq> p"
proof
  assume same: "resolve_cube p cx cz = p"
  have y: "py p < 1" "- PLAYER_HEIGHT < py p"
    using assms by (simp_all add: aabb_overlaps_cell_def)
  note pos = pen_positive [OF assms]
  consider (Y) "pen_y p \<le> pen_x p cx \<and> pen_y p \<le> pen_z p cz"
    | (X) "\<not> (pen_y p \<le> pen_x p cx \<and> pen_y p \<le> pen_z p cz)" "pen_x p cx \<le> pen_z p cz"
    | (Z) "\<not> (pen_y p \<le> pen_x p cx \<and> pen_y p \<le> pen_z p cz)" "\<not> pen_x p cx \<le> pen_z p cz"
    by blast
  then show False
  proof cases
    case Y
    then have "py (resolve_cube p cx cz) = 1.001
        \<or> py (resolve_cube p cx cz) = - PLAYER_HEIGHT - 0.001"
      using assms by (simp add: resolve_cube_cases)
    with same y show False by simp
  next
    case X
    then have "\<bar>px (resolve_cube p cx cz) - px p\<bar> = pen_x p cx"
      using assms pos by (simp add: resolve_cube_cases)
    with same pos show False by simp
  next
    case Z
    then have "\<bar>pz (resolve_cube p cx cz) - pz p\<bar> = pen_z p cz"
      using assms pos by (simp add: resolve_cube_cases)
    with same pos show False by simp
  qed
qed

text \<open>
  Claim C4: when the player's box overlaps the unit cube of a cell, the cube resolver works
  with the depths \<open>min (maxA - minB) (maxB - minA)\<close> of the three axes and resolves along the
  axis of least depth, \<open>y\<close> before \<open>x\<close> before \<open>z\<close> on ties. Resolving along \<open>y\<close> puts the foot
  on top of the cube or the head under it and leaves the horizontal position and velocity
  alone; resolving along \<open>x\<close> moves \<open>px\<close> by exactly the depth, damps \<open>vx\<close> and leaves the
  rest alone; and likewise for \<open>z\<close>.
\<close>

theorem resolve_cube_least_penetration:
  assumes "aabb_overlaps_cell p cx cz"
  shows "(pen_y p \<le> pen_x p cx \<and> pen_y p \<le> pen_z p cz \<longrightarrow>
            (py (resolve_cube p cx cz) = 1.001 \<or> py (resolve_cube p cx cz) = - PLAYER_HEIGHT - 0.001)
            \<and> px (resolve_cube p cx cz) = px p \<and> pz (resolve_cube p cx cz) = pz p
            \<and> vx (resolve_cube p cx cz) = vx p \<and> vz (resolve_cube p cx cz) = vz p)
       \<and> (\<not> (pen_y p \<le> pen_x p cx \<and> pen_y p \<le> pen_z p cz) \<and> pen_x p cx \<le> pen_z p cz \<longrightarrow>
            \<bar>px (resolve_cube p cx cz) - px p\<bar> = pen_x p cx
            \<and> vx (resolve_cube p cx cz) = vx p * 0.3
            \<and> py (resolve_cube p cx cz) = py p \<and> pz (resolve_cube p cx cz) = pz p
            \<and> vy (resolve_cube p cx cz) = vy p \<and> vz (resolve_cube p cx cz) = vz p
            \<and> grounded (resolve_cube p cx cz) = grounded p)
       \<and> (\<not> (pen_y p \<le> pen_x p cx \<and> pen_y p \<le> pen_z p cz) \<and> \<not> pen_x p cx \<le> pen_z p cz \<longrightarrow>
            \<bar>pz (resolve_cube p cx cz) - pz p\<bar> = pen_z p cz
            \<and> vz (resolve_cube p cx cz) = vz p * 0.3
            \<and> px (resolve_cube p cx cz) = px p \<and> py (resolve_cube p cx cz) = py p
            \<and> vx (resolve_cube p cx cz) = vx p \<and> vy (resolve_cube p cx cz) = vy p
            \<and> grounded (resolve_cube p cx cz) = grounded p)"
  using assms pen_positive [OF assms] by (simp add: resolve_cube_cases)

text \<open>
  Three players in the cell \<open>(0, 0)\<close>: one just under the top of the cube (least depth along
  \<open>y\<close>), one in the middle of it (the depths of \<open>x\<close> and \<open>z\<close> tie, and \<open>x\<close> is taken) and one
  near the side \<open>z = 0\<close>.
\<close>

theorem resolve_cube_least_penetration_witness:
  "aabb_overlaps_cell landing_player 0 0
   \<and> pen_y landing_player \<le> pen_x landing_player 0
   \<and> pen_y landing_player \<le> pen_z landing_player 0
   \<and> px (resolve_cube landing_player 0 0) = px landing_player
   \<and> vx (resolve_cube landing_player 0 0) = vx landing_player
   \<and> aabb_overlaps_cell sunk_player 0 0
   \<and> \<not> pen_y sunk_player \<le> pen_x sunk_player 0
   \<and> pen_x sunk_player 0 = pen_z sunk_player 0
   \<and> \<bar>px (resolve_cube sunk_player 0 0) - px sunk_player\<bar> = 0.78
   \<and> pz (resolve_cube sunk_player 0 0) = pz sunk_player
   \<and> aabb_overlaps_cell side_player 0 0
   \<and> \<not> pen_y side_player \<le> pen_z side_player 0
   \<and> \<not> pen_x side_player 0 \<le> pen_z side_player 0
   \<and> \<bar>pz (resolve_cube side_player 0 0) - pz side_player\<bar> = 0.38
   \<and> px (resolve_cube side_player 0 0) = px side_player"
proof -
  have a: "aabb_overlaps_cell landing_player 0 0" "aabb_overlaps_cell sunk_player 0 0"
    "aabb_overlaps_cell side_player 0 0"
    by (simp_all add: aabb_overlaps_cell_def landing_player_def sunk_player_def side_player_def
        PLAYER_RADIUS_def PLAYER_HEIGHT_def)
  have d: "pen_x landing_player 0 = 0.78" "pen_y landing_player = 0.05"
    "pen_z landing_player 0 = 0.78"
    "pen_x sunk_player 0 = 0.78" "pen_y sunk_player = 0.8" "pen_z sunk_player 0 = 0.78"
    "pen_x side_player 0 = 0.78" "pen_y side_player = 0.8" "pen_z side_player 0 = 0.38"
    by (simp_all add: pen_x_def pen_y_def pen_z_def pen_depth_def landing_player_def
        sunk_player_def side_player_def PLAYER_RADIUS_def PLAYER_HEIGHT_def)
  show ?thesis
    using resolve_cube_least_penetration [OF a(1)] resolve_cube_least_penetration [OF a(2)]
      resolve_cube_least_penetration [OF a(3)] a
    by (simp add: d)
qed

subsection \<open>The wedge resolver\<close>

lemma resolve_wedge_cases:
  "resolve_wedge p cx cz rot =
     (if wedge_in_reach p cx cz rot
      then p\<lparr>py := wedge_height_at_local (px p - real_of_int cx) (pz p - real_of_int cz) rot + 0.001,
              vy := max (vy p) 0, grounded := True\<rparr>
      else p)"
  by (auto simp: resolve_wedge_def wedge_in_reach_def Let_def max_def)

text \<open>The code's height function is the height field at the clamped coordinates.\<close>

lemma wedge_height_field:
  "wedge_height_at_local lx lz rot = height_field rot (unit_clamp lx) (unit_clamp lz)"
  by (simp add: wedge_height_at_local_def height_field_def unit_clamp_def clampd_def Let_def
      max_def min_def)

text \<open>
  Claim C5: the wedge resolver never changes \<open>px\<close>, \<open>pz\<close>, \<open>vx\<close> or \<open>vz\<close>. The height it
  works with is the height field of the rotation at the player's local coordinates, each
  clamped to \<open>[0, 1]\<close>. When the player's centre is inside the footprint of the cell inflated
  by the radius and the foot is at or below that height plus \<open>0.001\<close>, the foot is put at the
  height plus \<open>0.001\<close>, a downward \<open>vy\<close> becomes \<open>0\<close> and the player is grounded.
\<close>

theorem resolve_wedge_supports:
  "px (resolve_wedge p cx cz rot) = px p \<and> pz (resolve_wedge p cx cz rot) = pz p
   \<and> vx (resolve_wedge p cx cz rot) = vx p \<and> vz (resolve_wedge p cx cz rot) = vz p
   \<and> wedge_height_at_local lx lz rot = height_field rot (unit_clamp lx) (unit_clamp lz)
   \<and> (- PLAYER_RADIUS \<le> px p - real_of_int cx \<and> px p - real_of_int cx \<le> 1 + PLAYER_RADIUS
      \<and> - PLAYER_RADIUS \<le> pz p - real_of_int cz \<and> pz p - real_of_int cz \<le> 1 + PLAYER_RADIUS
      \<and> py p \<le> height_field rot (unit_clamp (px p - real_of_int cx))
                  (unit_clamp (pz p - real_of_int cz)) + 0.001
      \<longrightarrow> py (resolve_wedge p cx cz rot)
            = height_field rot (unit_clamp (px p - real_of_int cx))
                (unit_clamp (pz p - real_of_int cz)) + 0.001
        \<and> vy (resolve_wedge p cx cz rot) = max (vy p) 0
        \<and> grounded (resolve_wedge p cx cz rot))"
proof -
  have frame: "px (resolve_wedge p cx cz rot) = px p \<and> pz (resolve_wedge p cx cz rot) = pz p
      \<and> vx (resolve_wedge p cx cz rot) = vx p \<and> vz (resolve_wedge p cx cz rot) = vz p"
    by (simp add: resolve_wedge_def Let_def)
  have snap: "wedge_in_reach p cx cz rot \<longrightarrow>
      py (resolve_wedge p cx cz rot)
        = wedge_height_at_local (px p - real_of_int cx) (pz p - real_of_int cz) rot + 0.001
      \<and> vy (resolve_wedge p cx cz rot) = max (vy p) 0
      \<and> grounded (resolve_wedge p cx cz rot)"
    by (simp add: resolve_wedge_cases)
  show ?thesis
    using frame snap unfolding wedge_in_reach_def wedge_height_field by simp
qed

text \<open>
  A player inside the cell \<open>(0, 0)\<close> at local \<open>(0.25, 0.6)\<close> with its foot at \<open>0.2\<close>, under each
  of the four rotations: the surface is at \<open>0.25\<close>, \<open>0.75\<close>, \<open>0.6\<close> and \<open>0.4\<close>. And a player
  beside the cell at local \<open>(1.2, -0.1)\<close>, which the clamp takes to the corner \<open>(1, 0)\<close>:
  under rotation 0 the surface is at \<open>1\<close> and an upward \<open>vy\<close> is kept.
\<close>

theorem resolve_wedge_supports_witness:
  "- PLAYER_RADIUS \<le> px slope_player - real_of_int 0
   \<and> px slope_player - real_of_int 0 \<le> 1 + PLAYER_RADIUS
   \<and> - PLAYER_RADIUS \<le> pz slope_player - real_of_int 0
   \<and> pz slope_player - real_of_int 0 \<le> 1 + PLAYER_RADIUS
   \<and> py slope_player \<le> height_field 0 (unit_clamp (px slope_player - real_of_int 0))
        (unit_clamp (pz slope_player - real_of_int 0)) + 0.001
   \<and> py (resolve_wedge slope_player 0 0 0) = 0.251
   \<and> py (resolve_wedge slope_player 0 0 1) = 0.751
   \<and> py (resolve_wedge slope_player 0 0 2) = 0.601
   \<and> py (resolve_wedge slope_player 0 0 3) = 0.401
   \<and> vy (resolve_wedge slope_player 0 0 0) = 0
   \<and> grounded (resolve_wedge slope_player 0 0 0)
   \<and> px (resolve_wedge slope_player 0 0 0) = 0.25 \<and> vx (resolve_wedge slope_player 0 0 0) = 1
   \<and> wedge_height_at_local 1.2 (- 0.1) 0 = 1 \<and> wedge_height_at_local 1.2 (- 0.1) 1 = 0
   \<and> wedge_height_at_local 1.2 (- 0.1) 2 = 0 \<and> wedge_height_at_local 1.2 (- 0.1) 3 = 1
   \<and> py (resolve_wedge beside_player 0 0 0) = 1.001
   \<and> vy (resolve_wedge beside_player 0 0 0) = 4
   \<and> grounded (resolve_wedge beside_player 0 0 0)"
proof -
  have h: "height_field 0 (unit_clamp (1 / 4)) (unit_clamp (3 / 5)) = 1 / 4"
    "height_field 1 (unit_clamp (1 / 4)) (unit_clamp (3 / 5)) = 3 / 4"
    "height_field 2 (unit_clamp (1 / 4)) (unit_clamp (3 / 5)) = 3 / 5"
    "height_field 3 (unit_clamp (1 / 4)) (unit_clamp (3 / 5)) = 2 / 5"
    "height_field 0 (unit_clamp (6 / 5)) (unit_clamp (- (1 / 10))) = 1"
    "height_field 1 (unit_clamp (6 / 5)) (unit_clamp (- (1 / 10))) = 0"
    "height_field 2 (unit_clamp (6 / 5)) (unit_clamp (- (1 / 10))) = 0"
    "height_field 3 (unit_clamp (6 / 5)) (unit_clamp (- (1 / 10))) = 1"
    by (simp_all add: height_field_def unit_clamp_def)
  show ?thesis
    using resolve_wedge_supports [of slope_player 0 0 0 "1.2" "- 0.1"]
      resolve_wedge_supports [of slope_player 0 0 1 "1.2" "- 0.1"]
      resolve_wedge_supports [of slope_player 0 0 2 "1.2" "- 0.1"]
      resolve_wedge_supports [of slope_player 0 0 3 "1.2" "- 0.1"]
      resolve_wedge_supports [of beside_player 0 0 0 "1.2" "- 0.1"]
    by (simp add: slope_player_def beside_player_def PLAYER_RADIUS_def h)
qed

subsection \<open>When a resolver acts\<close>

text \<open>
  Claim C2 says that every resolver is a no-op when the player's box is outside the solid part
  of the cell. The box of \<open>hover_player\<close> lies above the unit cube of the cell \<open>(0, 0)\<close>, hence
  outside whatever is solid in it; the wedge resolver of that cell (rotation \<open>0\<close>, height \<open>1\<close>
  at \<open>px = 1\<close>) still lifts the foot to \<open>1.001\<close> and sets \<open>grounded\<close>.
\<close>

theorem wedge_acts_above_cell:
  "\<not> aabb_overlaps_cell hover_player 0 0
   \<and> resolve_wedge hover_player 0 0 0 = hover_player\<lparr>py := 1.001, grounded := True\<rparr>
   \<and> resolve_wedge hover_player 0 0 0 \<noteq> hover_player"
  by (simp add: aabb_overlaps_cell_def hover_player_def resolve_wedge_def wedge_height_at_local_def
      clampd_def PLAYER_RADIUS_def PLAYER_HEIGHT_def Let_def)

lemma resolve_goal_keeps_player:
  "in_map g mx mz \<Longrightarrow> tile_at g mx mz = TILE_END \<Longrightarrow> fst (resolve_cell g mx mz (p, lc)) = p"
  by (simp add: resolve_cell_def Let_def TILE_CUBE_def TILE_END_def TILE_WEDGE_def)

text \<open>
  Claim C2, amended: the cube resolver leaves the player unchanged exactly when the box does
  not overlap the unit cube of the cell, and changes it otherwise. The wedge resolver acts
  exactly when the player's centre is inside the footprint inflated by the radius and the foot
  is at most \<open>0.001\<close> above the height field (then it sets \<open>py\<close>, \<open>vy\<close> and \<open>grounded\<close>), and
  is a no-op otherwise. The goal test never changes the player.
\<close>

theorem resolvers_noop_outside:
  "(resolve_cube p cx cz = p \<longleftrightarrow> \<not> aabb_overlaps_cell p cx cz)
   \<and> resolve_wedge p cx cz rot =
       (if wedge_in_reach p cx cz rot
        then p\<lparr>py := wedge_height_at_local (px p - real_of_int cx) (pz p - real_of_int cz) rot + 0.001,
                vy := max (vy p) 0, grounded := True\<rparr>
        else p)
   \<and> (in_map g mx mz \<and> tile_at g mx mz = TILE_END \<longrightarrow> fst (resolve_cell g mx mz (p, lc)) = p)"
  using resolve_cube_moves [of p cx cz]
  by (auto simp: resolve_cube_cases [of p cx cz] resolve_wedge_cases resolve_goal_keeps_player)

theorem resolvers_noop_outside_witness:
  "\<not> aabb_overlaps_cell hover_player 0 0 \<and> resolve_cube hover_player 0 0 = hover_player
   \<and> \<not> wedge_in_reach initial_player 0 0 0 \<and> resolve_wedge initial_player 0 0 0 = initial_player
   \<and> in_map goal_map 0 0 \<and> tile_at goal_map 0 0 = TILE_END
   \<and> fst (resolve_cell goal_map 0 0 (hover_player, False)) = hover_player"
proof -
  have a: "\<not> aabb_overlaps_cell hover_player 0 0"
    by (simp add: aabb_overlaps_cell_def hover_player_def)
  have w: "\<not> wedge_in_reach initial_player 0 0 0"
    by (simp add: wedge_in_reach_def initial_player_def PLAYER_RADIUS_def)
  have g: "in_map goal_map 0 0" "tile_at goal_map 0 0 = TILE_END"
    by (simp_all add: in_map_def tile_at_def goal_map_def)
  show ?thesis
    using resolvers_noop_outside [of hover_player 0 0 0 goal_map 0 0 False]
      resolvers_noop_outside [of initial_player 0 0 0 goal_map 0 0 False] a w g
    by simp
qed

subsection \<open>The jump and its grace window\<close>

text \<open>
  What the block of \<^verbatim>\<open>physics_step\<close> between the friction and the position update does: with
  the timer already updated (reset when grounded, advanced by \<open>dt\<close> otherwise), a jump is
  taken exactly when the key is down and the player is grounded or the timer is below the
  window; a jump sets \<open>vy\<close>, clears \<open>grounded\<close> and parks the timer at the window.
\<close>

lemma jump_block:
  "step_gravity_jump (step_ground_timer p dt) inp dt =
     (if jump inp \<and> (grounded p \<or> time_since_grounded p + dt < BUNNY_HOP_TIME)
      then p\<lparr>vy := JUMP_VELOCITY, grounded := False, time_since_grounded := BUNNY_HOP_TIME\<rparr>
      else p\<lparr>vy := vy p - GRAVITY * dt,
              time_since_grounded := (if grounded p then 0 else time_since_grounded p + dt)\<rparr>)"
  by (auto simp: step_gravity_jump_def step_ground_timer_def Let_def BUNNY_HOP_TIME_def)

lemma step_horizontal_keeps:
  "grounded (step_horizontal p inp dt) = grounded p"
  "time_since_grounded (step_horizontal p inp dt) = time_since_grounded p"
  "vy (step_horizontal p inp dt) = vy p"
  by (simp_all add: step_horizontal_def Let_def case_prod_beta)

lemma physics_step_timer:
  "time_since_grounded (fst (physics_step g (p, lc) inp dt)) =
     (if jump inp \<and> (grounded p \<or> time_since_grounded p + dt < BUNNY_HOP_TIME)
      then BUNNY_HOP_TIME
      else if grounded p then 0 else time_since_grounded p + dt)"
  by (simp add: physics_step_def resolve_collisions_keeps controller_def integrate_def Let_def
      jump_block step_horizontal_keeps)

text \<open>
  Nothing in the step clears \<open>grounded\<close> but a jump: the resolvers and the floor only ever set
  it. A player that is grounded and does not jump is still grounded after the step, wherever
  it is.
\<close>

lemma grounded_kept_without_jump:
  assumes "grounded p" "\<not> jump inp"
  shows "grounded (fst (physics_step g (p, lc) inp dt))"
proof -
  have "grounded (controller p inp dt)"
    using assms by (simp add: controller_def integrate_def Let_def jump_block step_horizontal_keeps)
  then show ?thesis
    by (simp add: physics_step_def resolve_collisions_keeps)
qed

text \<open>
  Claim C3 ends with: a jump asked for after the player has left the ground succeeds within
  the grace window and fails after it. The code does not behave so. The player \<open>on_ledge\<close>
  stands on the cube of \<open>ledge_map\<close> and walks off it: after the first sub-step its footprint
  is past the cube, and after 15 fixed steps, that is 30 sub-steps or an eighth of a second,
  it is \<open>falling\<close>: in the air beyond the cube, above the floor, with \<open>grounded\<close> still set and
  the timer at \<open>0\<close>. The window of a tenth of a second is over, and yet a jump asked for in the
  next sub-step is taken: \<open>vy\<close> becomes the jump velocity.
\<close>

theorem jump_after_window_on_ledge:
  "1 + PLAYER_RADIUS
     < pz (fst (physics_step ledge_map (on_ledge, False) walk (PHYS_DT / real substeps)))
   \<and> (fixed_step ledge_map walk ^^ 15) (on_ledge, False) = (falling, False)
   \<and> BUNNY_HOP_TIME < 15 * PHYS_DT
   \<and> 0 < py falling \<and> 1 + PLAYER_RADIUS < pz falling
   \<and> grounded falling \<and> time_since_grounded falling = 0
   \<and> vy (fst (physics_step ledge_map (falling, False) walk_jump (PHYS_DT / real substeps)))
        = JUMP_VELOCITY"
proof -
  have first: "physics_step ledge_map (on_ledge, False) walk (1 / 240)
      = (\<lparr>px = 1 / 2, py = 72047 / 72000, pz = 1559 / 1200, vx = 0, vy = - 1 / 12,
          vz = 7, yaw = 0, pitch = 0, grounded = True, time_since_grounded = 0\<rparr>, False)"
    by (simp add: on_ledge_def ledge_fall_step)
  have last: "physics_step ledge_map (falling, False) walk_jump (1 / 240)
      = (\<lparr>px = 1 / 2, py = 20949 / 24000, pz = 2609 / 1200, vx = 0, vy = 8, vz = 7,
          yaw = 0, pitch = 0, grounded = False, time_since_grounded = 1 / 10\<rparr>, False)"
    by (simp add: falling_def ledge_jump_step)
  have dt: "PHYS_DT / real substeps = 1 / 240"
    by (simp add: PHYS_DT_def substeps_def)
  show ?thesis
    unfolding dt first last
    by (simp add: ledge_fall) (simp add: falling_def PLAYER_RADIUS_def BUNNY_HOP_TIME_def
        PHYS_DT_def JUMP_VELOCITY_def)
qed

subsection \<open>The floor\<close>

text \<open>
  Claim C6: after every physics step \<open>py\<close> is at least \<open>0\<close>; and when the loop over the
  neighbour cells leaves the player below \<open>0\<close>, the step ends with \<open>py = 0\<close>, \<open>vy = 0\<close> and
  \<open>grounded\<close> set.
\<close>

theorem physics_step_floor:
  "0 \<le> py (fst (physics_step g (p, lc) inp dt))
   \<and> (py (fst (resolve_neighbourhood g (controller p inp dt, lc))) < 0 \<longrightarrow>
        py (fst (physics_step g (p, lc) inp dt)) = 0
        \<and> vy (fst (physics_step g (p, lc) inp dt)) = 0
        \<and> grounded (fst (physics_step g (p, lc) inp dt)))"
  by (simp add: physics_step_def resolve_collisions_def floor_clamp_def case_prod_beta)

theorem physics_step_floor_witness:
  "py (fst (resolve_neighbourhood open_map (controller at_edge idle (1 / 240), False))) < 0
   \<and> py (fst (physics_step open_map (at_edge, False) idle (1 / 240))) = 0
   \<and> vy (fst (physics_step open_map (at_edge, False) idle (1 / 240))) = 0
   \<and> grounded (fst (physics_step open_map (at_edge, False) idle (1 / 240)))"
  using physics_step_floor [of open_map at_edge False idle "1 / 240"]
  by (simp add: open_neighbourhood_idle at_edge_controller)

subsection \<open>The accumulator and the interpolation\<close>

text \<open>The loop runs \<open>steps_due\<close> fixed steps and leaves the rest of the accumulator.\<close>

lemma step_loop_closed:
  "step_loop g inp acc st =
     (acc - real (steps_due acc) * PHYS_DT, ((fixed_step g inp) ^^ steps_due acc) st)"
proof (induction g inp acc st rule: step_loop.induct)
  case (1 g inp acc st)
  show ?case
  proof (cases "PHYS_DT \<le> acc")
    case True
    define k where "k = \<lfloor>acc * 120\<rfloor>"
    from True have one: "1 \<le> acc * 120" by (simp add: PHYS_DT_def)
    then have fl: "1 \<le> k" by (simp add: k_def le_floor_iff)
    have less: "\<lfloor>(acc - PHYS_DT) * 120\<rfloor> = k - 1"
      by (simp add: k_def PHYS_DT_def algebra_simps)
    have "nat k = Suc (nat (k - 1))"
      using fl by simp
    then have sd: "steps_due acc = Suc (steps_due (acc - PHYS_DT))"
      using less by (simp add: steps_due_def PHYS_DT_def k_def)
    have "step_loop g inp acc st = step_loop g inp (acc - PHYS_DT) (fixed_step g inp st)"
      using True by (subst step_loop.simps) simp
    also have "\<dots> = (acc - PHYS_DT - real (steps_due (acc - PHYS_DT)) * PHYS_DT,
        ((fixed_step g inp) ^^ steps_due (acc - PHYS_DT)) (fixed_step g inp st))"
      using "1.IH" [OF True] .
    also have "\<dots> = (acc - real (steps_due acc) * PHYS_DT, ((fixed_step g inp) ^^ steps_due acc) st)"
      by (simp add: sd funpow_swap1 algebra_simps)
    finally show ?thesis .
  next
    case False
    then have "acc * 120 < 1" by (simp add: PHYS_DT_def)
    then have "\<lfloor>acc * 120\<rfloor> \<le> 0" by (simp add: floor_le_iff)
    then have sd: "steps_due acc = 0" by (simp add: steps_due_def PHYS_DT_def)
    have "step_loop g inp acc st = (acc, st)"
      using False by (subst step_loop.simps) simp
    then show ?thesis by (simp add: sd)
  qed
qed

lemma step_loop_remainder:
  assumes "0 \<le> acc"
  shows "0 \<le> fst (step_loop g inp acc st)" "fst (step_loop g inp acc st) < PHYS_DT"
proof -
  define k where "k = \<lfloor>acc * 120\<rfloor>"
  have lo: "real_of_int k \<le> acc * 120" and hi: "acc * 120 < real_of_int k + 1"
    unfolding k_def by linarith+
  have "0 \<le> acc * 120" using assms by simp
  then have fl: "0 \<le> k" unfolding k_def by simp
  have r: "fst (step_loop g inp acc st) = acc - real_of_int k / 120"
    using fl by (simp add: step_loop_closed steps_due_def PHYS_DT_def k_def)
  show "0 \<le> fst (step_loop g inp acc st)"
    unfolding r using lo by linarith
  show "fst (step_loop g inp acc st) < PHYS_DT"
    unfolding r PHYS_DT_def using hi by linarith
qed

lemma clampd_bounds: "a \<le> b \<Longrightarrow> a \<le> clampd v a b \<and> clampd v a b \<le> b"
  by (simp add: clampd_def)




lemma apply_look_keeps:
  "accumulator (apply_look inp d) = accumulator d"
  "level_complete (apply_look inp d) = level_complete d"
  "menu_open (apply_look inp d) = menu_open d"
  "mouse_sensitivity (apply_look inp d) = mouse_sensitivity d"
  "invert_mouse_x (apply_look inp d) = invert_mouse_x d"
  "invert_mouse_y (apply_look inp d) = invert_mouse_y d"
  "mouse_dx_smooth (apply_look inp d)
     = lerp (mouse_dx_smooth d) (real_of_int (mouse_dx inp)) (1 - MOUSE_SMOOTH)"
  "mouse_dy_smooth (apply_look inp d)
     = lerp (mouse_dy_smooth d) (real_of_int (mouse_dy inp)) (1 - MOUSE_SMOOTH)"
  "px (state_curr (apply_look inp d)) = px (state_curr d)"
  "py (state_curr (apply_look inp d)) = py (state_curr d)"
  "pz (state_curr (apply_look inp d)) = pz (state_curr d)"
  by (simp_all add: apply_look_def Let_def)


lemma advance_clock_keeps:
  "accumulator (advance_clock elapsed d) = accumulator d + clampd elapsed 0 0.25"
  "state_curr (advance_clock elapsed d) = state_curr d"
  "level_complete (advance_clock elapsed d) = level_complete d"
  "menu_open (advance_clock elapsed d) = menu_open d"
  "mouse_sensitivity (advance_clock elapsed d) = mouse_sensitivity d"
  "invert_mouse_x (advance_clock elapsed d) = invert_mouse_x d"
  "invert_mouse_y (advance_clock elapsed d) = invert_mouse_y d"
  "mouse_dx_smooth (advance_clock elapsed d) = mouse_dx_smooth d"
  "mouse_dy_smooth (advance_clock elapsed d) = mouse_dy_smooth d"
  by (simp_all add: advance_clock_def Let_def)

lemma apply_look_clock:
  "state_curr (apply_look inp (advance_clock elapsed d)) = state_curr (apply_look inp d)"
  by (simp add: apply_look_def advance_clock_def Let_def)

lemma frame_accumulator:
  "accumulator (frame g inp elapsed d)
     = fst (step_loop g inp (accumulator d + clampd elapsed 0 0.25)
         (state_curr (apply_look inp d), level_complete d))"
  "state_prev (frame g inp elapsed d) = state_curr (apply_look inp d)"
  by (simp_all add: frame_def step_frame_def Let_def case_prod_beta apply_look_keeps
      advance_clock_keeps apply_look_clock)

lemma frame_alpha:
  assumes "0 \<le> accumulator d"
  shows "0 \<le> accumulator (frame g inp elapsed d)" "0 \<le> alpha_of (frame g inp elapsed d)"
    "alpha_of (frame g inp elapsed d) < 1"
proof -
  have "0 \<le> clampd elapsed 0 0.25"
    using clampd_bounds [of 0 "0.25" elapsed] by simp
  then have nn: "0 \<le> accumulator d + clampd elapsed 0 0.25"
    using assms by simp
  note rem = step_loop_remainder [OF nn, of g inp
      "(state_curr (apply_look inp d), level_complete d)"]
  show a: "0 \<le> accumulator (frame g inp elapsed d)"
    using rem by (simp add: frame_accumulator)
  have b: "accumulator (frame g inp elapsed d) < PHYS_DT"
    using rem by (simp add: frame_accumulator)
  show "0 \<le> alpha_of (frame g inp elapsed d)" "alpha_of (frame g inp elapsed d) < 1"
    using a b by (simp_all add: alpha_of_def PHYS_DT_def)
qed

lemma run_frames_accumulator:
  "0 \<le> accumulator d \<Longrightarrow> 0 \<le> accumulator (run_frames g fs d)"
proof (induction fs arbitrary: d)
  case Nil
  then show ?case by simp
next
  case (Cons f fs)
  obtain elapsed inp where f: "f = (elapsed, inp)" by (cases f)
  show ?case
    unfolding f using Cons.prems by (simp add: Cons.IH frame_alpha)
qed

text \<open>
  Claim C7: if the accumulator is not negative when a frame begins, then after the frame's
  accumulator loop \<open>alpha\<close> is in \<open>[0, 1)\<close> and the accumulator is again not negative; so
  \<open>alpha\<close> is in \<open>[0, 1)\<close> in every frame of every run from the initial state, where the
  accumulator is \<open>0\<close>. And when \<open>alpha\<close> is \<open>0\<close>, the interpolated position, velocity, yaw
  and pitch are those of the previous state.
\<close>

theorem alpha_in_unit_interval:
  "(0 \<le> accumulator d \<longrightarrow>
      0 \<le> alpha_of (frame g inp elapsed d) \<and> alpha_of (frame g inp elapsed d) < 1
      \<and> 0 \<le> accumulator (frame g inp elapsed d))
   \<and> 0 \<le> alpha_of (frame g inp elapsed (run_frames g fs initial_driver))
   \<and> alpha_of (frame g inp elapsed (run_frames g fs initial_driver)) < 1
   \<and> (alpha_of d = 0 \<longrightarrow>
        px (render_player r0 d) = px (state_prev d) \<and> py (render_player r0 d) = py (state_prev d)
        \<and> pz (render_player r0 d) = pz (state_prev d) \<and> vx (render_player r0 d) = vx (state_prev d)
        \<and> vy (render_player r0 d) = vy (state_prev d) \<and> vz (render_player r0 d) = vz (state_prev d)
        \<and> yaw (render_player r0 d) = yaw (state_prev d)
        \<and> pitch (render_player r0 d) = pitch (state_prev d))"
proof -
  have "0 \<le> accumulator (run_frames g fs initial_driver)"
    by (rule run_frames_accumulator) (simp add: initial_driver_def)
  then show ?thesis
    by (simp add: frame_alpha render_player_def Let_def)
qed

text \<open>
  The first frame, when it comes exactly one fixed step after the start: the accumulator is
  used up, \<open>alpha\<close> is \<open>0\<close> and the renderer gets the previous position.
\<close>

theorem alpha_in_unit_interval_witness:
  "0 \<le> accumulator initial_driver
   \<and> 0 \<le> accumulator (frame open_map idle (1 / 100) initial_driver)
   \<and> alpha_of (frame open_map idle (1 / 100) initial_driver) < 1
   \<and> alpha_of (frame open_map idle (1 / 120) initial_driver) = 0
   \<and> py (render_player hover_player (frame open_map idle (1 / 120) initial_driver)) = 2"
proof -
  have s: "steps_due (1 / 120) = 1"
    by (simp add: steps_due_def PHYS_DT_def)
  have a0: "alpha_of (frame open_map idle (1 / 120) initial_driver) = 0"
    by (simp add: alpha_of_def frame_accumulator step_loop_closed initial_driver_def clampd_def
        s PHYS_DT_def)
  have i: "0 \<le> accumulator initial_driver"
    by (simp add: initial_driver_def)
  show ?thesis
    using alpha_in_unit_interval [of initial_driver open_map idle "1 / 100" "[]" hover_player]
      alpha_in_unit_interval [of "frame open_map idle (1 / 120) initial_driver" open_map idle
        "1 / 100" "[]" hover_player] a0 i
    by (simp add: frame_accumulator apply_look_keeps initial_driver_def initial_player_def)
qed

subsection \<open>Frames and fixed steps\<close>














subsection \<open>The level-complete flag\<close>

lemma resolve_cell_flag:
  "snd (resolve_cell g mx mz (p, lc)) \<longleftrightarrow>
     lc \<or> (in_map g mx mz \<and> tile_at g mx mz = TILE_END \<and> footprint_on_cell p mx mz)"
  by (auto simp: resolve_cell_def Let_def footprint_on_cell_def TILE_CUBE_def TILE_END_def
      TILE_WEDGE_def)

lemma resolve_neighbourhood_flag:
  "(lc \<longrightarrow> snd (resolve_neighbourhood g (p, lc)))
   \<and> (snd (resolve_neighbourhood g (p, lc)) \<longrightarrow> lc \<or> goal_near g \<lfloor>px p\<rfloor> \<lfloor>pz p\<rfloor>)"
proof -
  let ?P = "\<lambda>s. (lc \<longrightarrow> snd s) \<and> (snd s \<longrightarrow> lc \<or> goal_near g \<lfloor>px p\<rfloor> \<lfloor>pz p\<rfloor>)"
  have "?P (resolve_neighbourhood g (p, lc))"
  proof (rule resolve_neighbourhood_invariant)
    show "?P (p, lc)" by simp
  next
    fix ox oz :: int and s :: "Player \<times> bool"
    assume o: "ox \<in> {-1, 0, 1}" "oz \<in> {-1, 0, 1}" and s: "?P s"
    obtain q f where sq: "s = (q, f)" by (cases s)
    have "snd (resolve_cell g (\<lfloor>px p\<rfloor> + ox) (\<lfloor>pz p\<rfloor> + oz) (q, f)) \<longrightarrow>
        f \<or> goal_near g \<lfloor>px p\<rfloor> \<lfloor>pz p\<rfloor>"
      unfolding resolve_cell_flag goal_near_def using o by blast
    moreover have "f \<longrightarrow> snd (resolve_cell g (\<lfloor>px p\<rfloor> + ox) (\<lfloor>pz p\<rfloor> + oz) (q, f))"
      by (simp add: resolve_cell_flag)
    ultimately show "?P (resolve_cell g (\<lfloor>px (fst (p, lc))\<rfloor> + ox) (\<lfloor>pz (fst (p, lc))\<rfloor> + oz) s)"
      using s sq by auto
  qed
  then show ?thesis by simp
qed

lemma resolve_collisions_snd: "snd (resolve_collisions g st) = snd (resolve_neighbourhood g st)"
  by (simp add: resolve_collisions_def case_prod_beta)

text \<open>
  Claim C9: the level-complete flag only ever goes up inside the physics core. If it is set
  before \<^verbatim>\<open>resolve_collisions\<close> or \<^verbatim>\<open>physics_step\<close> it is set after; the loop body for a cell
  sets it exactly when it was set or the cell is a goal inside the map that the player's
  footprint touches; and it can come out of \<^verbatim>\<open>resolve_collisions\<close> set only if it went in
  set or one of the nine cells is a goal.
\<close>

theorem level_complete_monotone:
  "(lc \<longrightarrow> snd (resolve_collisions g (p, lc)))
   \<and> (lc \<longrightarrow> snd (physics_step g (p, lc) inp dt))
   \<and> (snd (resolve_collisions g (p, lc)) \<longrightarrow> lc \<or> goal_near g \<lfloor>px p\<rfloor> \<lfloor>pz p\<rfloor>)
   \<and> (snd (resolve_cell g mx mz (p, lc)) \<longleftrightarrow>
        lc \<or> (in_map g mx mz \<and> tile_at g mx mz = TILE_END \<and> footprint_on_cell p mx mz))"
  using resolve_neighbourhood_flag [of lc g p]
    resolve_neighbourhood_flag [of lc g "controller p inp dt"]
  by (simp add: resolve_collisions_snd physics_step_def resolve_cell_flag)

theorem level_complete_monotone_witness:
  "snd (resolve_collisions goal_map (sunk_player, True))
   \<and> snd (physics_step goal_map (sunk_player, True) idle (1 / 240))
   \<and> in_map goal_map 0 0 \<and> tile_at goal_map 0 0 = TILE_END \<and> footprint_on_cell sunk_player 0 0
   \<and> snd (resolve_cell goal_map 0 0 (sunk_player, False))"
proof -
  have g: "in_map goal_map 0 0" "tile_at goal_map 0 0 = TILE_END" "footprint_on_cell sunk_player 0 0"
    by (simp_all add: in_map_def tile_at_def goal_map_def footprint_on_cell_def sunk_player_def
        PLAYER_RADIUS_def)
  show ?thesis
    using level_complete_monotone [of True goal_map sunk_player idle "1 / 240" 0 0]
      level_complete_monotone [of False goal_map sunk_player idle "1 / 240" 0 0] g
    by simp
qed

subsection \<open>The orientation\<close>

text \<open>
  Claim C10: \<^verbatim>\<open>physics_step\<close> reads the yaw but changes neither the yaw nor the pitch of the
  player, whatever the state, the input and the time step.
\<close>

theorem physics_step_keeps_orientation:
  "yaw (fst (physics_step g (p, lc) inp dt)) = yaw p
   \<and> pitch (fst (physics_step g (p, lc) inp dt)) = pitch p"
  by (simp add: physics_step_def resolve_collisions_keeps controller_keeps)

theorem physics_step_keeps_orientation_witness:
  "yaw (fst (physics_step ledge_map (on_ledge\<lparr>yaw := 1, pitch := - 1\<rparr>, False) walk_jump (1 / 240))) = 1
   \<and> pitch (fst (physics_step ledge_map (on_ledge\<lparr>yaw := 1, pitch := - 1\<rparr>, False) walk_jump (1 / 240)))
       = - 1"
  using physics_step_keeps_orientation [of ledge_map "on_ledge\<lparr>yaw := 1, pitch := - 1\<rparr>" False
      walk_jump "1 / 240"]
  by simp

end
